theory Spec2Isabelle
  imports Main "HOL-Library.Sublist"
begin

section \<open>Python values and exceptions\<close>

text \<open>
  The envelopes that travel between actors are Python dictionaries with string keys.
  Their values are modelled by \<open>val\<close>: \<open>None\<close>, strings, integers, tuples,
  dictionaries and pickled failures. Exceptions are values of \<open>exc\<close>; a function
  that can raise returns the exception together with the state it leaves behind.
\<close>

datatype val =
    VNone
  | VStr string
  | VInt int
  | VTuple "val list"
  | VDict "(string \<times> val) list"
  | VFailure string

text \<open>
  \<open>KeyError v\<close> stands for \<^verbatim>\<open>KeyError('Callback %s not in pending callbacks' % v)\<close>,
  \<open>AttributeError n\<close> and \<open>NameError n\<close> name the attribute or the variable that
  could not be found, \<open>SocketError n\<close> is a \<^verbatim>\<open>socket.error\<close> whose first argument
  is the error number \<open>n\<close>.
\<close>

datatype exc =
    ProtocolError string
  | CommandError string
  | KeyError val
  | TypeError string
  | ValueError string
  | AttributeError string
  | NameError string
  | IOError string
  | SocketError int
  | NotImplementedError
  | OtherException string

text \<open>
  The exceptions that \<^verbatim>\<open>except IOError\<close> catches: \<^verbatim>\<open>socket.error\<close> is a
  subclass of \<^verbatim>\<open>IOError\<close>.
\<close>

fun is_IOError :: "exc \<Rightarrow> bool" where
  "is_IOError (IOError m) = True"
| "is_IOError (SocketError n) = True"
| "is_IOError e = False"


text \<open>A dictionary key must be hashable: dictionaries are not, a tuple is when its items are.\<close>

fun hashable :: "val \<Rightarrow> bool" where
  "hashable (VTuple xs) = list_all hashable xs"
| "hashable (VDict kvs) = False"
| "hashable v = True"


text \<open>
  Looking up a free variable of a function: the names bound in the function first, then
  the names bound at module level. A name found in neither raises \<open>NameError\<close>
  (no builtin is called \<^verbatim>\<open>loop\<close> or \<^verbatim>\<open>chunk\<close>).
\<close>

definition load_name :: "(string \<times> 'a) list \<Rightarrow> (string \<times> 'a) list \<Rightarrow> string \<Rightarrow> exc + 'a" where
  "load_name locals globals n =
     (case map_of locals n of
        Some v \<Rightarrow> Inr v
      | None \<Rightarrow> (case map_of globals n of
                   Some v \<Rightarrow> Inr v
                 | None \<Rightarrow> Inl (NameError n)))"

text \<open>
  Looking up an attribute of an instance: the attributes its class defines in the source,
  then the attributes of the base class. The result is the name of the attribute found.
\<close>

definition getattr :: "string list \<Rightarrow> string list \<Rightarrow> string \<Rightarrow> exc + string" where
  "getattr class_attrs base_attrs n =
     (if n \<in> set class_attrs \<or> n \<in> set base_attrs then Inr n else Inl (AttributeError n))"

section \<open>mailbox.py: messages\<close>

text \<open>
  A registered command, as far as the mailbox reads it: its \<^verbatim>\<open>__name__\<close> and
  whether it requires an acknowledgment (\<^verbatim>\<open>ack\<close>). The registry itself
  (\<^verbatim>\<open>get_command\<close>) is a parameter of the functions below: a lookup that yields
  \<open>None\<close> for an unknown name.
\<close>

record command =
  cmd_name :: string
  cmd_ack :: bool

text \<open>
  A \<^verbatim>\<open>Message\<close>: the envelope \<open>data\<close> and the placeholder \<open>future\<close> of its
  result. A placeholder (\<^verbatim>\<open>Deferred\<close>) is an object; it is modelled by its identity,
  a number, and the results of the placeholders that have been resolved live in the store
  \<open>resolved\<close> below.
\<close>

record message =
  data :: "string \<rightharpoonup> val"
  future :: "nat option"

datatype outcome = Result val | ExcInfo exc

text \<open>
  \<^verbatim>\<open>Message.command\<close>. \<open>uid\<close> is what \<^verbatim>\<open>gen_unique_id()\<close> returns for this
  call, \<open>fid\<close> is the identity of the placeholder \<^verbatim>\<open>Deferred()\<close> allocates and
  \<open>actorid\<close> maps an actor to its identifier. When the registry yields \<open>None\<close>
  the expression \<^verbatim>\<open>command.__name__\<close> raises \<open>AttributeError\<close>.
\<close>

definition Message_command ::
  "(string \<Rightarrow> command option) \<Rightarrow> (val \<Rightarrow> val) \<Rightarrow> string \<Rightarrow> nat \<Rightarrow>
   string \<Rightarrow> val \<Rightarrow> val \<Rightarrow> val \<Rightarrow> val \<Rightarrow> exc + message" where
  "Message_command get_command actorid uid fid command sender target args kwargs =
     (case get_command command of
        None \<Rightarrow> Inl (AttributeError ''__name__'')
      | Some c \<Rightarrow>
          (let d = [''command'' \<mapsto> VStr (cmd_name c),
                    ''sender'' \<mapsto> actorid sender,
                    ''target'' \<mapsto> actorid target,
                    ''args'' \<mapsto> (if args \<noteq> VNone then args else VTuple []),
                    ''kwargs'' \<mapsto> (if kwargs \<noteq> VNone then kwargs else VDict [])]
           in if cmd_ack c
              then Inr \<lparr>data = d(''ack'' \<mapsto> VStr (take 8 uid)), future = Some fid\<rparr>
              else Inr \<lparr>data = d, future = None\<rparr>))"



section \<open>mailbox.py: MailboxProtocol\<close>

text \<open>
  The state of one \<^verbatim>\<open>MailboxProtocol\<close>: the correlation table
  \<^verbatim>\<open>_pending_responses\<close> from token to placeholder, the store of resolved
  placeholders, and the messages handed to \<^verbatim>\<open>self.start\<close>.
\<close>

record protocol =
  pending_responses :: "val \<rightharpoonup> nat"
  resolved :: "nat \<rightharpoonup> outcome"
  started :: "message list"

text \<open>
  \<^verbatim>\<open>_write\<close>. \<open>encode\<close> is \<^verbatim>\<open>pickle.dumps\<close> followed by the frame
  encoder; \<open>transport_write\<close> is \<^verbatim>\<open>self.transport.write\<close>, which is handed
  the bytes and may look at the protocol as it is at the moment of the call; it answers
  with the exception it raises, if any. \<open>running\<close> is
  \<^verbatim>\<open>get_actor().is_running()\<close>. The result is the exception that leaves
  \<^verbatim>\<open>_write\<close>, if any; the protocol is not changed.
\<close>

definition MailboxProtocol_write ::
  "((string \<rightharpoonup> val) \<Rightarrow> exc + string) \<Rightarrow> (protocol \<Rightarrow> string \<Rightarrow> exc option) \<Rightarrow> bool \<Rightarrow>
   protocol \<Rightarrow> message \<Rightarrow> exc option" where
  "MailboxProtocol_write encode transport_write running p req =
     (case encode (data req) of
        Inl e \<Rightarrow> Some e
      | Inr bytes \<Rightarrow>
          (case transport_write p bytes of
             None \<Rightarrow> None
           | Some e \<Rightarrow> (if is_IOError e then (if running then Some e else None) else Some e)))"

text \<open>
  \<^verbatim>\<open>_start\<close>. The result is the exception that leaves \<^verbatim>\<open>_start\<close>, if any,
  and the protocol afterwards.
\<close>

definition MailboxProtocol_start ::
  "((string \<rightharpoonup> val) \<Rightarrow> exc + string) \<Rightarrow> (protocol \<Rightarrow> string \<Rightarrow> exc option) \<Rightarrow> bool \<Rightarrow>
   protocol \<Rightarrow> message \<Rightarrow> exc option \<times> protocol" where
  "MailboxProtocol_start encode transport_write running p req =
     (case (future req, data req ''ack'') of
        (Some f, Some a) \<Rightarrow>
          if \<not> hashable a then (Some (TypeError ''unhashable type''), p)
          else
            (let p1 = p\<lparr>pending_responses := (pending_responses p)(a \<mapsto> f)\<rparr>
             in case MailboxProtocol_write encode transport_write running p1 req of
                  Some e \<Rightarrow> (None, p1\<lparr>resolved := (resolved p1)(f \<mapsto> ExcInfo e)\<rparr>)
                | None \<Rightarrow> (None, p1))
      | _ \<Rightarrow> (MailboxProtocol_write encode transport_write running p req, p))"

text \<open>
  \<^verbatim>\<open>request\<close>: builds the message, starts it and returns its placeholder.
\<close>

definition MailboxProtocol_request ::
  "(string \<Rightarrow> command option) \<Rightarrow> (val \<Rightarrow> val) \<Rightarrow> string \<Rightarrow> nat \<Rightarrow>
   ((string \<rightharpoonup> val) \<Rightarrow> exc + string) \<Rightarrow> (protocol \<Rightarrow> string \<Rightarrow> exc option) \<Rightarrow> bool \<Rightarrow>
   protocol \<Rightarrow> string \<Rightarrow> val \<Rightarrow> val \<Rightarrow> val \<Rightarrow> val \<Rightarrow> (exc + nat option) \<times> protocol" where
  "MailboxProtocol_request get_command actorid uid fid encode transport_write running
       p command sender target args kwargs =
     (case Message_command get_command actorid uid fid command sender target args kwargs of
        Inl e \<Rightarrow> (Inl e, p)
      | Inr req \<Rightarrow>
          (case MailboxProtocol_start encode transport_write running p req of
             (Some e, p') \<Rightarrow> (Inl e, p')
           | (None, p') \<Rightarrow> (Inr (future req), p')))"



section \<open>mailbox.py: MailboxClient\<close>

datatype address = TupleAddress string nat | OtherAddress string

record client =
  address :: address
  connection :: "protocol option"

text \<open>
  The names bound at module level in \<^verbatim>\<open>mailbox.py\<close> (its imports, assignments,
  functions and classes). The value of a name is not needed below, only whether it is bound.
\<close>

definition mailbox_globals :: "string list" where
  "mailbox_globals =
     [''sys'', ''logging'', ''namedtuple'', ''ProtocolError'', ''CommandError'', ''pickle'',
      ''nice_address'', ''FrameParser'', ''gen_unique_id'', ''asyncio'', ''get_actor'',
      ''Failure'', ''Deferred'', ''coroutine_return'', ''in_loop'', ''actorid'', ''get_proxy'',
      ''get_command'', ''ActorProxy'', ''Protocol'', ''BaseClient'', ''LOGGER'',
      ''CommandRequest'', ''command_in_context'', ''ProxyMailbox'', ''Message'',
      ''MailboxProtocol'', ''MailboxClient'']"

text \<open>The names bound inside \<^verbatim>\<open>MailboxClient.request\<close> when it starts.\<close>

definition request_locals :: "string list" where
  "request_locals = [''self'', ''command'', ''sender'', ''target'', ''args'', ''kwargs'']"

text \<open>
  \<^verbatim>\<open>MailboxClient.request\<close>. \<open>create_connection\<close> is the event loop's method
  of that name; the loop is reached through the free variable \<^verbatim>\<open>loop\<close>. The
  result is the exception raised, or the placeholder the caller is suspended on, and the
  client afterwards.
\<close>

definition MailboxClient_request ::
  "(string \<Rightarrow> nat \<Rightarrow> exc + protocol) \<Rightarrow>
   (string \<Rightarrow> command option) \<Rightarrow> (val \<Rightarrow> val) \<Rightarrow> string \<Rightarrow> nat \<Rightarrow>
   ((string \<rightharpoonup> val) \<Rightarrow> exc + string) \<Rightarrow> (protocol \<Rightarrow> string \<Rightarrow> exc option) \<Rightarrow> bool \<Rightarrow>
   client \<Rightarrow> string \<Rightarrow> val \<Rightarrow> val \<Rightarrow> val \<Rightarrow> val \<Rightarrow> (exc + nat option) \<times> client" where
  "MailboxClient_request create_connection get_command actorid uid fid encode transport_write
       running c command sender target args kwargs =
     (let connected =
            (case connection c of
               Some conn \<Rightarrow> Inr c
             | None \<Rightarrow>
                 (case address c of
                    TupleAddress host port \<Rightarrow>
                      (case load_name (map (\<lambda>n. (n, ())) request_locals)
                                      (map (\<lambda>n. (n, ())) mailbox_globals) ''loop'' of
                         Inl e \<Rightarrow> Inl e
                       | Inr loop \<Rightarrow>
                           (case create_connection host port of
                              Inl e \<Rightarrow> Inl e
                            | Inr conn \<Rightarrow> Inr (c\<lparr>connection := Some conn\<rparr>)))
                  | OtherAddress a \<Rightarrow> Inl NotImplementedError))
      in case connected of
           Inl e \<Rightarrow> (Inl e, c)
         | Inr c1 \<Rightarrow>
             (case Message_command get_command actorid uid fid command sender target args kwargs of
                Inl e \<Rightarrow> (Inl e, c1)
              | Inr req \<Rightarrow>
                  (case connection c1 of
                     None \<Rightarrow> (Inl (AttributeError ''_start''), c1)
                   | Some conn \<Rightarrow>
                       (case MailboxProtocol_start encode transport_write running conn req of
                          (Some e, conn') \<Rightarrow> (Inl e, c1\<lparr>connection := Some conn'\<rparr>)
                        | (None, conn') \<Rightarrow> (Inr (future req), c1\<lparr>connection := Some conn'\<rparr>)))))"

section \<open>stream.py: SocketStreamTransport\<close>

type_synonym bytes = string

text \<open>
  The socket is the environment of the transport. \<open>sent\<close> holds the bytes it has
  accepted so far, in order. \<open>send_script\<close> and \<open>recv_script\<close> are its answers
  to the coming calls of \<^verbatim>\<open>send\<close> and \<^verbatim>\<open>recv\<close>: \<open>Sent n\<close> accepts
  at most \<open>n\<close> bytes, \<open>Recv c\<close> returns the chunk \<open>c\<close>, and
  \<open>SendFails n\<close>, \<open>RecvFails n\<close> raise \<^verbatim>\<open>socket.error\<close> with error number
  \<open>n\<close>. A socket whose script is exhausted accepts nothing more and has nothing more
  to read.
\<close>

datatype send_result = Sent nat | SendFails int

datatype recv_result = Recv bytes | RecvFails int

record socket =
  sent :: bytes
  send_script :: "send_result list"
  recv_script :: "recv_result list"

text \<open>
  The transport. \<open>writer\<close> is the callback registered with the event loop for
  writability of the socket (by the name of the method), \<open>call_soon\<close> the callbacks
  scheduled with \<^verbatim>\<open>call_soon\<close>, \<open>warnings\<close> the warnings logged, \<open>delivered\<close>
  the chunks handed to \<^verbatim>\<open>protocol.data_received\<close>, \<open>eof\<close> whether
  \<^verbatim>\<open>protocol.eof_received\<close> was called.
\<close>

record transport =
  paused_reading :: bool
  paused_writing :: bool
  read_buffer :: "bytes list"
  write_buffer :: "bytes list"
  closing :: bool
  sock :: socket
  writer :: "string option"
  call_soon :: "string list"
  warnings :: "string list"
  delivered :: "bytes list"
  eof :: bool

text \<open>A value a variable of \<^verbatim>\<open>stream.py\<close> can hold: a chunk of bytes, or another object.\<close>

datatype obj = Chunk bytes | Other

text \<open>
  What \<^verbatim>\<open>stream.py\<close> takes from elsewhere, as parameters: the constants
  \<^verbatim>\<open>WRITE_BUFFER_MAX_SIZE\<close>, \<^verbatim>\<open>TRY_WRITE_AGAIN\<close> and
  \<^verbatim>\<open>EWOULDBLOCK\<close>; the base class \<^verbatim>\<open>SocketTransport\<close>, with the names
  of the attributes it provides (\<open>base_attrs\<close>), its \<^verbatim>\<open>_check_closed\<close> (the
  exception it raises, if any), its property \<^verbatim>\<open>writing\<close>, its
  \<^verbatim>\<open>abort\<close> and \<^verbatim>\<open>close\<close>, and the method \<^verbatim>\<open>_data_received\<close>
  in case it has one; and the protocol, whose \<^verbatim>\<open>data_received\<close> and
  \<^verbatim>\<open>eof_received\<close> may raise.
\<close>

record env =
  WRITE_BUFFER_MAX_SIZE :: int
  TRY_WRITE_AGAIN :: "int list"
  EWOULDBLOCK :: int
  base_attrs :: "string list"
  check_closed :: "transport \<Rightarrow> exc option"
  writing :: "transport \<Rightarrow> bool"
  abort :: "exc \<Rightarrow> transport \<Rightarrow> transport"
  close :: "transport \<Rightarrow> transport"
  base_data_received :: "obj \<Rightarrow> transport \<Rightarrow> exc option \<times> transport"
  data_received :: "bytes \<Rightarrow> exc option"
  eof_received :: "exc option"

text \<open>The attributes that the class \<^verbatim>\<open>SocketStreamTransport\<close> defines itself.\<close>

definition SocketStreamTransport_attrs :: "string list" where
  "SocketStreamTransport_attrs =
     [''_paused_reading'', ''_paused_writing'', ''pause'', ''resume'', ''pause_writing'',
      ''resume_writing'', ''write'', ''writelines'', ''_ready_write'', ''_read_ready'']"

text \<open>The names bound at module level in \<^verbatim>\<open>stream.py\<close>.\<close>

definition stream_globals :: "string list" where
  "stream_globals =
     [''os'', ''sys'', ''socket'', ''ssl'', ''TRY_WRITE_AGAIN'', ''TRY_READ_AGAIN'',
      ''ACCEPT_ERRORS'', ''EWOULDBLOCK'', ''EPERM'', ''merge_prefix'', ''NUMBER_ACCEPTS'',
      ''multi_async'', ''Deferred'', ''SocketTransport'', ''WRITE_BUFFER_MAX_SIZE'', ''AF_INET6'',
      ''SocketStreamTransport'', ''SocketStreamSslTransport'', ''create_connection'',
      ''start_serving'', ''sock_connect'', ''sock_accept'', ''sock_accept_connection'']"

text \<open>\<^verbatim>\<open>pause\<close>.\<close>

definition pause :: "transport \<Rightarrow> transport" where
  "pause s = (if \<not> paused_reading s then s\<lparr>paused_reading := True\<rparr> else s)"

text \<open>
  \<^verbatim>\<open>resume\<close>. The body of its loop is
  \<^verbatim>\<open>self._data_received(chunk)\<close>: the attribute is looked up first, then the
  argument, a variable that is not the loop variable \<^verbatim>\<open>data\<close>.
\<close>

fun resume_loop :: "env \<Rightarrow> bytes list \<Rightarrow> transport \<Rightarrow> exc option \<times> transport" where
  "resume_loop env [] s = (None, s)"
| "resume_loop env (d # buffer) s =
     (case getattr SocketStreamTransport_attrs (base_attrs env) ''_data_received'' of
        Inl e \<Rightarrow> (Some e, s)
      | Inr m \<Rightarrow>
          (case load_name [(''self'', Other), (''buffer'', Other), (''data'', Chunk d)]
                          (map (\<lambda>n. (n, Other)) stream_globals) ''chunk'' of
             Inl e \<Rightarrow> (Some e, s)
           | Inr chunk \<Rightarrow>
               (case base_data_received env chunk s of
                  (Some e, s') \<Rightarrow> (Some e, s')
                | (None, s') \<Rightarrow> resume_loop env buffer s')))"

definition resume :: "env \<Rightarrow> transport \<Rightarrow> exc option \<times> transport" where
  "resume env s =
     (if paused_reading s
      then resume_loop env (read_buffer s) (s\<lparr>paused_reading := False, read_buffer := []\<rparr>)
      else (None, s))"

text \<open>\<^verbatim>\<open>pause_writing\<close>.\<close>

definition pause_writing :: "transport \<Rightarrow> transport" where
  "pause_writing s =
     (if \<not> paused_writing s then s\<lparr>paused_writing := True, writer := None\<rparr> else s)"

text \<open>
  \<^verbatim>\<open>resume_writing\<close>. The callback it registers is the attribute
  \<^verbatim>\<open>_write_ready\<close> of the transport.
\<close>

definition resume_writing :: "env \<Rightarrow> transport \<Rightarrow> exc option \<times> transport" where
  "resume_writing env s =
     (if paused_writing s then
        (if write_buffer s \<noteq> [] then
           (case getattr SocketStreamTransport_attrs (base_attrs env) ''_write_ready'' of
              Inl e \<Rightarrow> (Some e, s)
            | Inr m \<Rightarrow> (None, s\<lparr>writer := Some m, paused_writing := False\<rparr>))
         else (None, s\<lparr>paused_writing := False\<rparr>))
      else (None, s))"

text \<open>
  Modelled from the spec: \<^verbatim>\<open>merge_prefix\<close> of \<^verbatim>\<open>pulsar.utils.structures\<close>
  is not among the sources. The spec says of a partial send that "the sent prefix is
  trimmed from the chunk (remaining bytes stay at the queue head) rather than being
  re-submitted as a new chunk": \<open>merge_prefix deque sz\<close> rearranges the head of the
  queue so that its first chunk holds the first \<open>sz\<close> bytes of the queue, which
  \<^verbatim>\<open>popleft\<close> then removes.
\<close>

fun merge_chunks :: "bytes list \<Rightarrow> nat \<Rightarrow> bytes list \<Rightarrow> bytes list \<times> bytes list" where
  "merge_chunks [] remaining pfx = ([], pfx)"
| "merge_chunks (chunk # deque) remaining pfx =
     (if remaining = 0 then (chunk # deque, pfx)
      else if length chunk > remaining
           then (drop remaining chunk # deque, pfx @ [take remaining chunk])
           else merge_chunks deque (remaining - length chunk) (pfx @ [chunk]))"

definition merge_prefix :: "bytes list \<Rightarrow> nat \<Rightarrow> bytes list" where
  "merge_prefix deque sz =
     (if length deque = 1 \<and> length (hd deque) \<le> sz then deque
      else (case merge_chunks deque sz [] of
              (rest, pfx) \<Rightarrow>
                (let merged = (if pfx \<noteq> [] then concat pfx # rest else rest)
                 in if merged = [] then [''''] else merged)))"

text \<open>
  The \<^verbatim>\<open>while buffer\<close> loop of \<^verbatim>\<open>_ready_write\<close>, one answer of the socket
  per iteration. Its arguments are the error numbers of \<^verbatim>\<open>TRY_WRITE_AGAIN\<close>, the
  socket's script, the write queue, the bytes the socket has accepted and
  \<^verbatim>\<open>tot_bytes\<close>; it returns the exception that leaves the loop, if any, and the
  same four afterwards.
\<close>

fun send_loop ::
  "int list \<Rightarrow> send_result list \<Rightarrow> bytes list \<Rightarrow> bytes \<Rightarrow> nat \<Rightarrow>
   exc option \<times> send_result list \<times> bytes list \<times> bytes \<times> nat" where
  "send_loop again script [] wire tot = (None, script, [], wire, tot)"
| "send_loop again [] (c # buffer) wire tot = (None, [], c # buffer, wire, tot)"
| "send_loop again (Sent n # script) (c # buffer) wire tot =
     (let k = min n (length c)
      in if k = 0 then (None, script, c # buffer, wire, tot)
         else send_loop again script (tl (merge_prefix (c # buffer) k)) (wire @ take k c) (tot + k))"
| "send_loop again (SendFails errno # script) (c # buffer) wire tot =
     (if errno \<in> set again then (None, script, c # buffer, wire, tot)
      else (Some (SocketError errno), script, c # buffer, wire, tot))"


text \<open>
  \<^verbatim>\<open>_ready_write\<close>. It returns \<^verbatim>\<open>tot_bytes\<close>, or nothing after an abort,
  and the transport afterwards.
\<close>

definition ready_write :: "env \<Rightarrow> transport \<Rightarrow> nat option \<times> transport" where
  "ready_write env s =
     (if paused_writing s then (Some 0, s)
      else
        (let s1 = (if write_buffer s = []
                   then s\<lparr>warnings := warnings s @ [''handling write on a 0 length buffer'']\<rparr>
                   else s)
         in case send_loop (TRY_WRITE_AGAIN env) (send_script (sock s1)) (write_buffer s1)
                           (sent (sock s1)) 0 of
              (r, script, buffer, wire, tot) \<Rightarrow>
                (let s2 = s1\<lparr>write_buffer := buffer,
                             sock := (sock s1)\<lparr>sent := wire, send_script := script\<rparr>\<rparr>
                 in case r of
                      Some e \<Rightarrow> (None, abort env e s2)
                    | None \<Rightarrow>
                        (if \<not> writing env s2 then
                           (let s3 = s2\<lparr>writer := None\<rparr>
                            in if closing s3
                               then (Some tot, s3\<lparr>call_soon := call_soon s3 @ [''_shutdown'']\<rparr>)
                               else (Some tot, s3))
                         else (Some tot, s2)))))"

text \<open>
  The loop \<^verbatim>\<open>for i in range(0, len(data), WRITE_BUFFER_MAX_SIZE)\<close> of
  \<^verbatim>\<open>write\<close>, for a positive step \<open>m\<close>, from index \<open>i\<close> on.
\<close>

function write_loop :: "nat \<Rightarrow> bytes \<Rightarrow> nat \<Rightarrow> bytes list \<Rightarrow> bytes list" where
  "write_loop m dat i buffer =
     (if m = 0 \<or> length dat \<le> i then buffer
      else write_loop m dat (i + m) (buffer @ [take m (drop i dat)]))"
  by pat_completeness auto
termination
  by (relation "measure (\<lambda>(m, dat, i, buffer). length dat - i)") auto

declare write_loop.simps [simp del]

text \<open>
  The part of \<^verbatim>\<open>write\<close> that appends to the write queue. A step of zero makes
  \<^verbatim>\<open>range\<close> raise \<open>ValueError\<close>, a negative step makes the range empty.
\<close>

definition write_enqueue :: "int \<Rightarrow> transport \<Rightarrow> bytes \<Rightarrow> exc + transport" where
  "write_enqueue m s dat =
     (if dat \<noteq> [] then
        (if int (length dat) > m then
           (if m = 0 then Inl (ValueError ''range() arg 3 must not be zero'')
            else if m < 0 then Inr s
            else Inr (s\<lparr>write_buffer := write_loop (nat m) dat 0 (write_buffer s)\<rparr>))
         else Inr (s\<lparr>write_buffer := write_buffer s @ [dat]\<rparr>))
      else Inr s)"

text \<open>
  \<^verbatim>\<open>write\<close> (here \<open>write_chunk\<close>): the exception it raises, if any, and the
  transport afterwards.
\<close>

definition write_chunk :: "env \<Rightarrow> transport \<Rightarrow> bytes \<Rightarrow> exc option \<times> transport" where
  "write_chunk env s dat =
     (if dat = [] then (None, s)
      else
        (case check_closed env s of
           Some e \<Rightarrow> (Some e, s)
         | None \<Rightarrow>
             (let was_writing = writing env s
              in case write_enqueue (WRITE_BUFFER_MAX_SIZE env) s dat of
                   Inl e \<Rightarrow> (Some e, s)
                 | Inr s1 \<Rightarrow>
                     (if \<not> was_writing \<and> \<not> paused_writing s1 then
                        (let s2 = snd (ready_write env s1)
                         in if writing env s2 then
                              (case getattr SocketStreamTransport_attrs (base_attrs env)
                                            ''_ready_write'' of
                                 Inl e \<Rightarrow> (Some e, s2)
                               | Inr m \<Rightarrow> (None, s2\<lparr>writer := Some m\<rparr>))
                            else if closing s2
                                 then (None, s2\<lparr>call_soon := call_soon s2 @ [''_shutdown'']\<rparr>)
                                 else (None, s2))
                      else (None, s1)))))"

text \<open>\<^verbatim>\<open>writelines\<close>: the writes in order, up to the first that raises.\<close>

fun writelines :: "env \<Rightarrow> transport \<Rightarrow> bytes list \<Rightarrow> exc option \<times> transport" where
  "writelines env s [] = (None, s)"
| "writelines env s (d # list_of_data) =
     (case write_chunk env s d of
        (Some e, s') \<Rightarrow> (Some e, s')
      | (None, s') \<Rightarrow> writelines env s' list_of_data)"

text \<open>
  The \<^verbatim>\<open>while chunk\<close> loop of \<^verbatim>\<open>_read_ready\<close>, one answer of the socket per
  iteration; \<open>passes\<close> counts the iterations done.
\<close>

fun recv_loop ::
  "env \<Rightarrow> recv_result list \<Rightarrow> nat \<Rightarrow> transport \<Rightarrow> exc option \<times> recv_result list \<times> transport" where
  "recv_loop env [] passes s = (None, [], s)"
| "recv_loop env (RecvFails errno # script) passes s =
     (if errno = EWOULDBLOCK env then (None, script, s)
      else (Some (SocketError errno), script, s))"
| "recv_loop env (Recv chunk # script) passes s =
     (if chunk \<noteq> [] then
        (if paused_reading s
         then recv_loop env script (passes + 1) (s\<lparr>read_buffer := read_buffer s @ [chunk]\<rparr>)
         else (case data_received env chunk of
                 Some e \<Rightarrow> (Some e, script, s\<lparr>delivered := delivered s @ [chunk]\<rparr>)
               | None \<Rightarrow> recv_loop env script (passes + 1) (s\<lparr>delivered := delivered s @ [chunk]\<rparr>)))
      else if passes = 0 then
        (case eof_received env of
           Some e \<Rightarrow> (Some e, script, close env (s\<lparr>eof := True\<rparr>))
         | None \<Rightarrow> (None, script, close env (s\<lparr>eof := True\<rparr>)))
      else (None, script, s))"

text \<open>\<^verbatim>\<open>_read_ready\<close>.\<close>

definition read_ready :: "env \<Rightarrow> transport \<Rightarrow> transport" where
  "read_ready env s =
     (case recv_loop env (recv_script (sock s)) 0 s of
        (r, script, s1) \<Rightarrow>
          (let s2 = s1\<lparr>sock := (sock s1)\<lparr>recv_script := script\<rparr>\<rparr>
           in case r of Some e \<Rightarrow> abort env e s2 | None \<Rightarrow> s2))"

section \<open>stream.py: create_connection\<close>

text \<open>
  One candidate address returned by \<^verbatim>\<open>getaddrinfo\<close>, with what the environment
  does when it is tried: whether creating the socket raises \<^verbatim>\<open>socket.error\<close>,
  whether binding it to a given local address does, whether connecting it does. The type
  \<open>'e\<close> is the type of the \<^verbatim>\<open>socket.error\<close> objects.
\<close>

record ('a, 'l, 'e) candidate =
  cand_address :: 'a
  socket_fails :: "'e option"
  bind_fails :: "'l \<Rightarrow> 'e option"
  connect_fails :: "'e option"

text \<open>
  How \<^verbatim>\<open>create_connection\<close> fails: it raises again a \<^verbatim>\<open>socket.error\<close>
  it has collected, raises a new \<^verbatim>\<open>socket.error\<close> with a message, raises
  \<^verbatim>\<open>ValueError\<close>, reads \<^verbatim>\<open>exceptions[0]\<close> of an empty list, or reads
  an unbound variable.
\<close>

datatype 'e conn_error =
    Raised 'e
  | NewSocketError string
  | BadArguments string
  | NoFailures
  | Unbound string

text \<open>\<^verbatim>\<open>sep.join(xs)\<close>.\<close>

fun join :: "string \<Rightarrow> string list \<Rightarrow> string" where
  "join sep [] = []"
| "join sep [x] = x"
| "join sep (x # y # ys) = x @ sep @ join sep (y # ys)"

text \<open>
  The loop over the local addresses: \<open>True\<close> when a bind succeeded
  (\<^verbatim>\<open>break\<close>), \<open>False\<close> when the loop ran to its \<^verbatim>\<open>else\<close>. Each failed
  bind appends an exception, built by \<open>bind_error\<close> from the local address and the
  exception caught.
\<close>

fun bind_loop ::
  "('l \<Rightarrow> 'e \<Rightarrow> 'e) \<Rightarrow> ('l \<Rightarrow> 'e option) \<Rightarrow> 'l list \<Rightarrow> 'e list \<Rightarrow> bool \<times> 'e list" where
  "bind_loop bind_error b [] exceptions = (False, exceptions)"
| "bind_loop bind_error b (laddr # ls) exceptions =
     (case b laddr of
        None \<Rightarrow> (True, exceptions)
      | Some e \<Rightarrow> bind_loop bind_error b ls (exceptions @ [bind_error laddr e]))"

text \<open>
  The loop over the candidates: the address connected to (\<^verbatim>\<open>break\<close>), or nothing
  when the loop ran to its \<^verbatim>\<open>else\<close>, and the exceptions collected.
\<close>

fun connect_loop ::
  "('l \<Rightarrow> 'e \<Rightarrow> 'e) \<Rightarrow> 'l list option \<Rightarrow> ('a, 'l, 'e) candidate list \<Rightarrow> 'e list \<Rightarrow>
   'a option \<times> 'e list" where
  "connect_loop bind_error laddr_infos [] exceptions = (None, exceptions)"
| "connect_loop bind_error laddr_infos (c # cs) exceptions =
     (case socket_fails c of
        Some e \<Rightarrow> connect_loop bind_error laddr_infos cs (exceptions @ [e])
      | None \<Rightarrow>
          (case (case laddr_infos of
                   None \<Rightarrow> (True, exceptions)
                 | Some ls \<Rightarrow> bind_loop bind_error (bind_fails c) ls exceptions) of
             (False, exceptions1) \<Rightarrow> connect_loop bind_error laddr_infos cs exceptions1
           | (True, exceptions1) \<Rightarrow>
               (case connect_fails c of
                  Some e \<Rightarrow> connect_loop bind_error laddr_infos cs (exceptions1 @ [e])
                | None \<Rightarrow> (Some (cand_address c), exceptions1))))"

text \<open>
  The \<^verbatim>\<open>else\<close> branch of the loop over the candidates; \<open>str\<close> is Python's
  \<^verbatim>\<open>str\<close> on the exceptions.
\<close>

definition raise_failures :: "('e \<Rightarrow> string) \<Rightarrow> 'e list \<Rightarrow> 'e conn_error" where
  "raise_failures str exceptions =
     (if length exceptions = 1 then Raised (exceptions ! 0)
      else (case exceptions of
              [] \<Rightarrow> NoFailures
            | e0 # es \<Rightarrow>
                (let model = str e0
                 in if list_all (\<lambda>exc. str exc = model) exceptions then Raised e0
                    else NewSocketError
                           (''Multiple exceptions: '' @ join '', '' (map str exceptions)))))"

text \<open>
  \<^verbatim>\<open>create_connection\<close>. \<open>host_or_port\<close> says whether a host or a port was
  given, \<open>sock_arg\<close> is the socket given, \<open>infos\<close> and \<open>laddr_infos\<close> are the
  answers of \<^verbatim>\<open>getaddrinfo\<close> for the destination and, when a local address was
  given, for the local address. On success the result is the socket the transport is built
  on: the one connected to a candidate's address, or the one given.
\<close>

definition create_connection ::
  "('e \<Rightarrow> string) \<Rightarrow> ('l \<Rightarrow> 'e \<Rightarrow> 'e) \<Rightarrow> bool \<Rightarrow> 's option \<Rightarrow> bool \<Rightarrow>
   ('a, 'l, 'e) candidate list \<Rightarrow> 'l list option \<Rightarrow> 'e conn_error + ('a + 's)" where
  "create_connection str bind_error host_or_port sock_arg ssl infos laddr_infos =
     (case (if host_or_port then
              (if sock_arg \<noteq> None
               then Inl (BadArguments ''host/port and sock can not be specified at the same time'')
               else if laddr_infos = Some []
                    then Inl (NewSocketError ''getaddrinfo() returned empty list'')
                    else (case connect_loop bind_error laddr_infos infos [] of
                            (Some a, exceptions) \<Rightarrow> Inr (Inl a)
                          | (None, exceptions) \<Rightarrow> Inl (raise_failures str exceptions)))
            else (case sock_arg of
                    None \<Rightarrow> Inl (BadArguments ''host and port was not specified and no sock specified'')
                  | Some k \<Rightarrow> Inr (Inr k))) of
        Inl e \<Rightarrow> Inl e
      | Inr k \<Rightarrow>
          (if ssl then
             (case load_name (map (\<lambda>n. (n, ()))
                                [''event_loop'', ''protocol_factory'', ''host'', ''port'', ''ssl'',
                                 ''family'', ''proto'', ''flags'', ''sock'', ''local_addr'',
                                 ''protocol'', ''sslcontext''])
                             (map (\<lambda>n. (n, ())) stream_globals) ''waiter'' of
                Inl e \<Rightarrow> Inl (Unbound ''waiter'')
              | Inr w \<Rightarrow> Inr k)
           else Inr k))"


section \<open>Concrete inputs\<close>

text \<open>A registry with the commands \<^verbatim>\<open>ping\<close> (acknowledged) and \<^verbatim>\<open>notify\<close> (not).\<close>

definition registry :: "string \<Rightarrow> command option" where
  "registry = [''ping'' \<mapsto> \<lparr>cmd_name = ''ping'', cmd_ack = True\<rparr>,
               ''notify'' \<mapsto> \<lparr>cmd_name = ''notify'', cmd_ack = False\<rparr>]"

definition actorid_of :: "val \<Rightarrow> val" where
  "actorid_of a = a"

definition pickle_frame :: "(string \<rightharpoonup> val) \<Rightarrow> exc + string" where
  "pickle_frame d = Inr ''frame''"

definition bad_pickle :: "(string \<rightharpoonup> val) \<Rightarrow> exc + string" where
  "bad_pickle d = Inl (OtherException ''cannot pickle'')"

text \<open>
  A transport whose \<^verbatim>\<open>write\<close> succeeds, one that is closed and one that raises
  another exception.
\<close>

definition good_transport :: "protocol \<Rightarrow> string \<Rightarrow> exc option" where
  "good_transport p bytes = None"

definition closed_transport :: "protocol \<Rightarrow> string \<Rightarrow> exc option" where
  "closed_transport p bytes = Some (IOError ''Transport is closed'')"

definition broken_transport :: "protocol \<Rightarrow> string \<Rightarrow> exc option" where
  "broken_transport p bytes = Some (OtherException ''write failed'')"

text \<open>A transport that fails unless the placeholder is already in the correlation table.\<close>

definition racing_transport :: "val \<Rightarrow> nat \<Rightarrow> protocol \<Rightarrow> string \<Rightarrow> exc option" where
  "racing_transport a f p bytes =
     (if pending_responses p a = Some f then None else Some (OtherException ''response missed''))"



text \<open>The message that \<^verbatim>\<open>Message.command\<close> builds for \<^verbatim>\<open>ping\<close>.\<close>

definition ping_request :: message where
  "ping_request =
     \<lparr>data = [''command'' \<mapsto> VStr ''ping'', ''sender'' \<mapsto> VStr ''a'', ''target'' \<mapsto> VStr ''b'',
              ''args'' \<mapsto> VTuple [], ''kwargs'' \<mapsto> VDict [], ''ack'' \<mapsto> VStr ''01234567''],
      future = Some 0\<rparr>"

definition protocol0 :: protocol where
  "protocol0 = \<lparr>pending_responses = Map.empty, resolved = Map.empty, started = []\<rparr>"

definition protocol1 :: protocol where
  "protocol1 = \<lparr>pending_responses = [VStr ''0a1b2c3d'' \<mapsto> 7], resolved = Map.empty, started = []\<rparr>"




definition dial :: "string \<Rightarrow> nat \<Rightarrow> exc + protocol" where
  "dial host port = Inr protocol0"

definition client0 :: client where
  "client0 = \<lparr>address = TupleAddress ''127.0.0.1'' 8000, connection = None\<rparr>"

text \<open>
  An environment for the transport: chunks of at most 4 bytes, a base class that provides
  the attributes the source reads from it under other names than the two looked up in
  \<^verbatim>\<open>resume\<close> and \<^verbatim>\<open>resume_writing\<close>, is open, is writing when the write
  queue is not empty, and a protocol that does not raise.
\<close>

definition env0 :: env where
  "env0 = \<lparr>WRITE_BUFFER_MAX_SIZE = 4,
           TRY_WRITE_AGAIN = [11],
           EWOULDBLOCK = 11,
           base_attrs = [''_read_buffer'', ''_write_buffer'', ''_event_loop'', ''_sock_fd'',
                         ''_check_closed'', ''writing'', ''_closing'', ''_shutdown'', ''sock'',
                         ''_sock'', ''_protocol'', ''_read_chunk_size'', ''abort'', ''close''],
           check_closed = (\<lambda>s. None),
           writing = (\<lambda>s. write_buffer s \<noteq> []),
           abort = (\<lambda>e s. s\<lparr>closing := True\<rparr>),
           close = (\<lambda>s. s\<lparr>closing := True\<rparr>),
           base_data_received = (\<lambda>v s. (None, s)),
           data_received = (\<lambda>c. None),
           eof_received = None\<rparr>"

text \<open>The same environment with a base class that also provides \<^verbatim>\<open>_data_received\<close>.\<close>

definition env1 :: env where
  "env1 = env0\<lparr>base_attrs := ''_data_received'' # base_attrs env0\<rparr>"

definition socket0 :: socket where
  "socket0 = \<lparr>sent = [], send_script = [Sent 3, Sent 10, SendFails 11], recv_script = [Recv ''ab'', Recv ''cd'']\<rparr>"

definition transport0 :: transport where
  "transport0 = \<lparr>paused_reading = False, paused_writing = False, read_buffer = [],
                 write_buffer = [], closing = False, sock = socket0, writer = None,
                 call_soon = [], warnings = [], delivered = [], eof = False\<rparr>"




section \<open>Properties of the mailbox\<close>

subsection \<open>Building and starting a request\<close>

lemma Message_command_ack:
  assumes "get_command command = Some c" "cmd_ack c"
    and "Message_command get_command actorid uid fid command sender target args kwargs = Inr req"
  shows "future req = Some fid" "data req ''ack'' = Some (VStr (take 8 uid))"
proof -
  have "req = \<lparr>data = [''command'' \<mapsto> VStr (cmd_name c),
                    ''sender'' \<mapsto> actorid sender,
                    ''target'' \<mapsto> actorid target,
                    ''args'' \<mapsto> (if args \<noteq> VNone then args else VTuple []),
                    ''kwargs'' \<mapsto> (if kwargs \<noteq> VNone then kwargs else VDict []),
                    ''ack'' \<mapsto> VStr (take 8 uid)], future = Some fid\<rparr>"
    using assms by (simp add: Message_command_def Let_def)
  then show "future req = Some fid" "data req ''ack'' = Some (VStr (take 8 uid))"
    by simp_all
qed

text \<open>What leaves \<^verbatim>\<open>_write\<close>, case by case.\<close>

lemma write_encode_fails:
  "encode (data req) = Inl e \<Longrightarrow> MailboxProtocol_write encode tw running q req = Some e"
  by (simp add: MailboxProtocol_write_def)

lemma write_succeeds:
  "encode (data req) = Inr b \<Longrightarrow> tw q b = None \<Longrightarrow>
     MailboxProtocol_write encode tw running q req = None"
  by (simp add: MailboxProtocol_write_def)

lemma write_propagates:
  "encode (data req) = Inr b \<Longrightarrow> tw q b = Some e \<Longrightarrow> running \<or> \<not> is_IOError e \<Longrightarrow>
     MailboxProtocol_write encode tw running q req = Some e"
  by (auto simp: MailboxProtocol_write_def)

lemma write_swallows:
  "encode (data req) = Inr b \<Longrightarrow> tw q b = Some e \<Longrightarrow> is_IOError e \<Longrightarrow> \<not> running \<Longrightarrow>
     MailboxProtocol_write encode tw running q req = None"
  by (simp add: MailboxProtocol_write_def)

lemma write_agree:
  assumes "\<forall>b. tw' q b = tw q b"
  shows "MailboxProtocol_write encode tw' running q req = MailboxProtocol_write encode tw running q req"
  using assms by (simp add: MailboxProtocol_write_def split: sum.splits)

lemma start_ack:
  assumes "future req = Some f" "data req ''ack'' = Some (VStr a)"
  shows "MailboxProtocol_start encode t running p req =
      (case MailboxProtocol_write encode t running
              (p\<lparr>pending_responses := (pending_responses p)(VStr a \<mapsto> f)\<rparr>) req of
         Some e \<Rightarrow> (None, p\<lparr>pending_responses := (pending_responses p)(VStr a \<mapsto> f),
                             resolved := (resolved p)(f \<mapsto> ExcInfo e)\<rparr>)
       | None \<Rightarrow> (None, p\<lparr>pending_responses := (pending_responses p)(VStr a \<mapsto> f)\<rparr>))"
  using assms by (simp add: MailboxProtocol_start_def Let_def split: option.splits)

lemma request_ack:
  assumes gc: "get_command command = Some c" and ack: "cmd_ack c"
    and mc: "Message_command get_command actorid uid fid command sender target args kwargs = Inr req"
  shows "MailboxProtocol_request get_command actorid uid fid encode t running p
               command sender target args kwargs =
      (case MailboxProtocol_write encode t running
              (p\<lparr>pending_responses := (pending_responses p)(VStr (take 8 uid) \<mapsto> fid)\<rparr>) req of
         Some e \<Rightarrow> (Inr (Some fid), p\<lparr>pending_responses := (pending_responses p)(VStr (take 8 uid) \<mapsto> fid),
                             resolved := (resolved p)(fid \<mapsto> ExcInfo e)\<rparr>)
       | None \<Rightarrow> (Inr (Some fid), p\<lparr>pending_responses := (pending_responses p)(VStr (take 8 uid) \<mapsto> fid)\<rparr>))"
proof -
  note fa = Message_command_ack [OF gc ack mc]
  show ?thesis
    by (cases "MailboxProtocol_write encode t running
              (p\<lparr>pending_responses := (pending_responses p)(VStr (take 8 uid) \<mapsto> fid)\<rparr>) req")
       (simp_all add: MailboxProtocol_request_def mc start_ack [OF fa] fa)
qed

subsection \<open>Callback envelopes\<close>




subsection \<open>Acknowledged requests\<close>

text \<open>
  C2, as amended. For an acknowledged request issued through \<^verbatim>\<open>request\<close>: the
  write to the transport is attempted only with the placeholder already stored under the
  request's token (the outcome depends on the transport only through what it does in such
  states); the request returns the placeholder, which is in the table afterwards; when the
  encoding or the transport raises an exception that leaves \<^verbatim>\<open>_write\<close>, that is
  any exception but an \<open>IOError\<close> (or its subclass \<^verbatim>\<open>socket.error\<close>)
  raised while the actor is not running, the placeholder is resolved with that failure;
  an \<open>IOError\<close> raised while the actor is not running is swallowed, and no
  placeholder is resolved, as after a successful write.
\<close>

theorem request_stores_placeholder_before_write:
  assumes gc: "get_command command = Some c" and ack: "cmd_ack c"
    and mc: "Message_command get_command actorid uid fid command sender target args kwargs = Inr req"
  shows "(\<forall>tw'. (\<forall>q b. pending_responses q (VStr (take 8 uid)) = Some fid \<longrightarrow> tw' q b = tw q b) \<longrightarrow>
            MailboxProtocol_request get_command actorid uid fid encode tw' running p
               command sender target args kwargs
            = MailboxProtocol_request get_command actorid uid fid encode tw running p
               command sender target args kwargs) \<and>
         fst (MailboxProtocol_request get_command actorid uid fid encode tw running p
               command sender target args kwargs) = Inr (Some fid) \<and>
         pending_responses (snd (MailboxProtocol_request get_command actorid uid fid encode tw running p
               command sender target args kwargs)) (VStr (take 8 uid)) = Some fid \<and>
         (\<forall>e. encode (data req) = Inl e \<longrightarrow>
              resolved (snd (MailboxProtocol_request get_command actorid uid fid encode tw running p
               command sender target args kwargs)) fid = Some (ExcInfo e)) \<and>
         (\<forall>b e. encode (data req) = Inr b \<and>
                 tw (p\<lparr>pending_responses := (pending_responses p)(VStr (take 8 uid) \<mapsto> fid)\<rparr>) b = Some e \<and>
                 (running \<or> \<not> is_IOError e) \<longrightarrow>
              resolved (snd (MailboxProtocol_request get_command actorid uid fid encode tw running p
               command sender target args kwargs)) fid = Some (ExcInfo e)) \<and>
         (\<forall>b e. encode (data req) = Inr b \<and>
                 tw (p\<lparr>pending_responses := (pending_responses p)(VStr (take 8 uid) \<mapsto> fid)\<rparr>) b
                   = Some e \<and> is_IOError e \<and> \<not> running \<longrightarrow>
              resolved (snd (MailboxProtocol_request get_command actorid uid fid encode tw running p
               command sender target args kwargs)) = resolved p) \<and>
         (\<forall>b. encode (data req) = Inr b \<and>
                 tw (p\<lparr>pending_responses := (pending_responses p)(VStr (take 8 uid) \<mapsto> fid)\<rparr>) b = None \<longrightarrow>
              resolved (snd (MailboxProtocol_request get_command actorid uid fid encode tw running p
               command sender target args kwargs)) = resolved p)"
proof -
  let ?a = "VStr (take 8 uid)"
  let ?p1 = "p\<lparr>pending_responses := (pending_responses p)(?a \<mapsto> fid)\<rparr>"
  let ?R = "MailboxProtocol_request get_command actorid uid fid encode tw running p
               command sender target args kwargs"
  note req = request_ack [OF gc ack mc]
  have ordering: "MailboxProtocol_request get_command actorid uid fid encode tw' running p
               command sender target args kwargs = ?R"
    if h: "\<forall>q b. pending_responses q ?a = Some fid \<longrightarrow> tw' q b = tw q b" for tw'
  proof -
    have "\<forall>b. tw' ?p1 b = tw ?p1 b" using h by simp
    then have "MailboxProtocol_write encode tw' running ?p1 req
                 = MailboxProtocol_write encode tw running ?p1 req"
      by (rule write_agree)
    then show ?thesis by (simp only: req)
  qed
  have r1: "fst ?R = Inr (Some fid)"
    by (simp add: req split: option.splits)
  have r2: "pending_responses (snd ?R) ?a = Some fid"
    by (simp add: req split: option.splits)
  have raised: "resolved (snd ?R) fid = Some (ExcInfo e)"
    if "MailboxProtocol_write encode tw running ?p1 req = Some e" for e
    using that by (simp add: req)
  have quiet: "resolved (snd ?R) = resolved p"
    if "MailboxProtocol_write encode tw running ?p1 req = None"
    using that by (simp add: req)
  have r3: "\<forall>e. encode (data req) = Inl e \<longrightarrow> resolved (snd ?R) fid = Some (ExcInfo e)"
    using raised write_encode_fails by blast
  have r4: "\<forall>b e. encode (data req) = Inr b \<and> tw ?p1 b = Some e \<and>
                 (running \<or> \<not> is_IOError e) \<longrightarrow>
              resolved (snd ?R) fid = Some (ExcInfo e)"
  proof (intro allI impI)
    fix b e
    assume h: "encode (data req) = Inr b \<and> tw ?p1 b = Some e \<and> (running \<or> \<not> is_IOError e)"
    then have "MailboxProtocol_write encode tw running ?p1 req = Some e"
      by (intro write_propagates [of encode req b tw ?p1 e running]) simp_all
    then show "resolved (snd ?R) fid = Some (ExcInfo e)" by (rule raised)
  qed
  have r5: "\<forall>b e. encode (data req) = Inr b \<and> tw ?p1 b = Some e \<and> is_IOError e \<and> \<not> running \<longrightarrow>
              resolved (snd ?R) = resolved p"
  proof (intro allI impI)
    fix b e
    assume h: "encode (data req) = Inr b \<and> tw ?p1 b = Some e \<and> is_IOError e \<and> \<not> running"
    then have "MailboxProtocol_write encode tw running ?p1 req = None"
      by (intro write_swallows [of encode req b tw ?p1 e running]) simp_all
    then show "resolved (snd ?R) = resolved p" by (rule quiet)
  qed
  have r6: "\<forall>b. encode (data req) = Inr b \<and> tw ?p1 b = None \<longrightarrow> resolved (snd ?R) = resolved p"
  proof (intro allI impI)
    fix b
    assume h: "encode (data req) = Inr b \<and> tw ?p1 b = None"
    then have "MailboxProtocol_write encode tw running ?p1 req = None"
      by (intro write_succeeds [of encode req b tw ?p1 running]) simp_all
    then show "resolved (snd ?R) = resolved p" by (rule quiet)
  qed
  show ?thesis
    using ordering r1 r2 r3 r4 r5 r6 by blast
qed

text \<open>
  C2, the theorem above at the acknowledged command \<^verbatim>\<open>ping\<close>: a transport that
  fails unless the placeholder is already stored behaves as one that always succeeds; a
  transport that raises another exception than \<open>IOError\<close> resolves the placeholder
  with it; a closed transport, with the actor not running, resolves nothing.
\<close>

theorem request_stores_placeholder_before_write_witness:
  "registry ''ping'' = Some \<lparr>cmd_name = ''ping'', cmd_ack = True\<rparr> \<and>
   cmd_ack \<lparr>cmd_name = ''ping'', cmd_ack = True\<rparr> \<and>
   Message_command registry actorid_of ''0123456789abcdef'' 0 ''ping'' (VStr ''a'') (VStr ''b'') VNone VNone
     = Inr ping_request \<and>
   MailboxProtocol_request registry actorid_of ''0123456789abcdef'' 0 pickle_frame
         (racing_transport (VStr ''01234567'') 0) True protocol0 ''ping'' (VStr ''a'') (VStr ''b'') VNone VNone
     = MailboxProtocol_request registry actorid_of ''0123456789abcdef'' 0 pickle_frame
         good_transport True protocol0 ''ping'' (VStr ''a'') (VStr ''b'') VNone VNone \<and>
   pending_responses (snd (MailboxProtocol_request registry actorid_of ''0123456789abcdef'' 0 pickle_frame
         good_transport True protocol0 ''ping'' (VStr ''a'') (VStr ''b'') VNone VNone)) (VStr ''01234567'') = Some 0 \<and>
   resolved (snd (MailboxProtocol_request registry actorid_of ''0123456789abcdef'' 0 pickle_frame
         broken_transport True protocol0 ''ping'' (VStr ''a'') (VStr ''b'') VNone VNone)) 0
     = Some (ExcInfo (OtherException ''write failed'')) \<and>
   resolved (snd (MailboxProtocol_request registry actorid_of ''0123456789abcdef'' 0 pickle_frame
         closed_transport True protocol0 ''ping'' (VStr ''a'') (VStr ''b'') VNone VNone)) 0
     = Some (ExcInfo (IOError ''Transport is closed'')) \<and>
   resolved (snd (MailboxProtocol_request registry actorid_of ''0123456789abcdef'' 0 pickle_frame
         closed_transport False protocol0 ''ping'' (VStr ''a'') (VStr ''b'') VNone VNone)) = resolved protocol0 \<and>
   resolved (snd (MailboxProtocol_request registry actorid_of ''0123456789abcdef'' 0 pickle_frame
         good_transport True protocol0 ''ping'' (VStr ''a'') (VStr ''b'') VNone VNone)) = resolved protocol0 \<and>
   resolved (snd (MailboxProtocol_request registry actorid_of ''0123456789abcdef'' 0 bad_pickle
         good_transport True protocol0 ''ping'' (VStr ''a'') (VStr ''b'') VNone VNone)) 0
     = Some (ExcInfo (OtherException ''cannot pickle''))"
proof -
  have gc: "registry ''ping'' = Some \<lparr>cmd_name = ''ping'', cmd_ack = True\<rparr>"
    by (simp add: registry_def)
  have ack: "cmd_ack \<lparr>cmd_name = ''ping'', cmd_ack = True\<rparr>"
    by simp
  have mc: "Message_command registry actorid_of ''0123456789abcdef'' 0 ''ping'' (VStr ''a'') (VStr ''b'')
              VNone VNone = Inr ping_request"
    by (simp add: Message_command_def registry_def actorid_of_def ping_request_def)
  have tok: "take 8 ''0123456789abcdef'' = ''01234567''"
    by simp
  have enc: "pickle_frame (data ping_request) = Inr ''frame''"
    by (simp add: pickle_frame_def)
  have race: "\<forall>q b. pending_responses q (VStr ''01234567'') = Some 0 \<longrightarrow>
                racing_transport (VStr ''01234567'') 0 q b = good_transport q b"
    by (simp add: racing_transport_def good_transport_def)
  have broken: "broken_transport q ''frame'' = Some (OtherException ''write failed'')"
      and closed: "closed_transport q ''frame'' = Some (IOError ''Transport is closed'')" for q
    by (simp_all add: broken_transport_def closed_transport_def)
  have io: "\<not> is_IOError (OtherException ''write failed'')" "is_IOError (IOError ''Transport is closed'')"
    by simp_all
  note t = request_stores_placeholder_before_write [OF gc ack mc, unfolded tok]
  from t [of good_transport pickle_frame True protocol0] race
  have w1: "MailboxProtocol_request registry actorid_of ''0123456789abcdef'' 0 pickle_frame
         (racing_transport (VStr ''01234567'') 0) True protocol0 ''ping'' (VStr ''a'') (VStr ''b'') VNone VNone
     = MailboxProtocol_request registry actorid_of ''0123456789abcdef'' 0 pickle_frame
         good_transport True protocol0 ''ping'' (VStr ''a'') (VStr ''b'') VNone VNone"
    and w2: "pending_responses (snd (MailboxProtocol_request registry actorid_of ''0123456789abcdef'' 0 pickle_frame
         good_transport True protocol0 ''ping'' (VStr ''a'') (VStr ''b'') VNone VNone)) (VStr ''01234567'') = Some 0"
    by blast+
  from t [of broken_transport pickle_frame True protocol0] enc broken io
  have w3: "resolved (snd (MailboxProtocol_request registry actorid_of ''0123456789abcdef'' 0 pickle_frame
         broken_transport True protocol0 ''ping'' (VStr ''a'') (VStr ''b'') VNone VNone)) 0
     = Some (ExcInfo (OtherException ''write failed''))"
    by blast
  from t [of closed_transport pickle_frame True protocol0] enc closed io
  have w4: "resolved (snd (MailboxProtocol_request registry actorid_of ''0123456789abcdef'' 0 pickle_frame
         closed_transport True protocol0 ''ping'' (VStr ''a'') (VStr ''b'') VNone VNone)) 0
     = Some (ExcInfo (IOError ''Transport is closed''))"
    by blast
  from t [of closed_transport pickle_frame False protocol0] enc closed io
  have w5: "resolved (snd (MailboxProtocol_request registry actorid_of ''0123456789abcdef'' 0 pickle_frame
         closed_transport False protocol0 ''ping'' (VStr ''a'') (VStr ''b'') VNone VNone)) = resolved protocol0"
    by blast
  have good: "good_transport q ''frame'' = None" for q
    by (simp add: good_transport_def)
  from t [of good_transport pickle_frame True protocol0] enc good
  have w6: "resolved (snd (MailboxProtocol_request registry actorid_of ''0123456789abcdef'' 0 pickle_frame
         good_transport True protocol0 ''ping'' (VStr ''a'') (VStr ''b'') VNone VNone)) = resolved protocol0"
    by blast
  have bad: "bad_pickle (data ping_request) = Inl (OtherException ''cannot pickle'')"
    by (simp add: bad_pickle_def)
  from t [of good_transport bad_pickle True protocol0] bad
  have w7: "resolved (snd (MailboxProtocol_request registry actorid_of ''0123456789abcdef'' 0 bad_pickle
         good_transport True protocol0 ''ping'' (VStr ''a'') (VStr ''b'') VNone VNone)) 0
     = Some (ExcInfo (OtherException ''cannot pickle''))"
    by blast
  show ?thesis
    using gc ack mc w1 w2 w3 w4 w5 w6 w7 by blast
qed

text \<open>
  C2, as stated, fails: the transport is closed and raises \<open>IOError\<close> in
  \<^verbatim>\<open>write\<close> while the actor is not running. The write has failed synchronously,
  yet the placeholder of the request is left unresolved, and it stays in the table.
\<close>

theorem swallowed_write_failure_leaves_placeholder:
  "resolved (snd (MailboxProtocol_request registry actorid_of ''0123456789abcdef'' 0 pickle_frame
         closed_transport False protocol0 ''ping'' (VStr ''a'') (VStr ''b'') VNone VNone)) 0 = None \<and>
   pending_responses (snd (MailboxProtocol_request registry actorid_of ''0123456789abcdef'' 0 pickle_frame
         closed_transport False protocol0 ''ping'' (VStr ''a'') (VStr ''b'') VNone VNone)) (VStr ''01234567'') = Some 0"
  by (simp add: MailboxProtocol_request_def Message_command_def registry_def MailboxProtocol_start_def
      MailboxProtocol_write_def pickle_frame_def closed_transport_def protocol0_def Let_def)

subsection \<open>Requests without acknowledgment\<close>

text \<open>
  C5. For a command that does not require acknowledgment, the message built carries no
  placeholder and no correlation token, and starting it, alone or through
  \<^verbatim>\<open>request\<close>, leaves the protocol, and so its correlation table, as it was,
  whatever the encoder and the transport do.
\<close>

theorem unacked_request_keeps_table:
  assumes gc: "get_command command = Some c" and ack: "\<not> cmd_ack c"
  shows "\<exists>req. Message_command get_command actorid uid fid command sender target args kwargs = Inr req \<and>
           future req = None \<and> data req ''ack'' = None \<and>
           snd (MailboxProtocol_start encode tw running p req) = p \<and>
           snd (MailboxProtocol_request get_command actorid uid fid encode tw running p
                  command sender target args kwargs) = p \<and>
           pending_responses (snd (MailboxProtocol_request get_command actorid uid fid encode tw running p
                  command sender target args kwargs)) = pending_responses p"
  using gc ack
  by (auto simp: Message_command_def Let_def MailboxProtocol_start_def MailboxProtocol_request_def
       split: option.splits)

text \<open>
  C5, the theorem above at the command \<^verbatim>\<open>notify\<close>, sent over a transport that
  raises, with one acknowledged request pending.
\<close>

theorem unacked_request_keeps_table_witness:
  "registry ''notify'' = Some \<lparr>cmd_name = ''notify'', cmd_ack = False\<rparr> \<and>
   \<not> cmd_ack \<lparr>cmd_name = ''notify'', cmd_ack = False\<rparr> \<and>
   snd (MailboxProtocol_request registry actorid_of ''0123456789abcdef'' 0 pickle_frame
         broken_transport True protocol1 ''notify'' (VStr ''a'') (VStr ''b'') VNone VNone) = protocol1 \<and>
   pending_responses (snd (MailboxProtocol_request registry actorid_of ''0123456789abcdef'' 0 pickle_frame
         broken_transport True protocol1 ''notify'' (VStr ''a'') (VStr ''b'') VNone VNone))
     = pending_responses protocol1"
proof -
  have gc: "registry ''notify'' = Some \<lparr>cmd_name = ''notify'', cmd_ack = False\<rparr>"
    by (simp add: registry_def)
  have ack: "\<not> cmd_ack \<lparr>cmd_name = ''notify'', cmd_ack = False\<rparr>"
    by simp
  from unacked_request_keeps_table [where get_command = registry and command = "''notify''"
      and c = "\<lparr>cmd_name = ''notify'', cmd_ack = False\<rparr>" and actorid = actorid_of
      and uid = "''0123456789abcdef''" and fid = 0 and sender = "VStr ''a''" and target = "VStr ''b''"
      and args = VNone and kwargs = VNone and encode = pickle_frame and tw = broken_transport
      and running = True and p = protocol1, OF gc ack]
  show ?thesis using gc ack by blast
qed

subsection \<open>Unknown commands\<close>


subsection \<open>The client's first request\<close>

text \<open>A client that has a connection starts the message on it and keeps it.\<close>

lemma client_request_reuses_connection:
  assumes "connection c = Some conn"
  shows "MailboxClient_request connect get_command actorid uid fid encode tw running
           c command sender target args kwargs =
         (case Message_command get_command actorid uid fid command sender target args kwargs of
            Inl e \<Rightarrow> (Inl e, c)
          | Inr req \<Rightarrow>
              (case MailboxProtocol_start encode tw running conn req of
                 (Some e, conn') \<Rightarrow> (Inl e, c\<lparr>connection := Some conn'\<rparr>)
               | (None, conn') \<Rightarrow> (Inr (future req), c\<lparr>connection := Some conn'\<rparr>)))"
  using assms by (simp add: MailboxClient_request_def split: sum.splits)

text \<open>
  C3. A client without a connection, whose address is a host and a port, is asked for a
  request: the variable \<^verbatim>\<open>loop\<close> through which the connection would be made is
  bound neither in \<^verbatim>\<open>request\<close> nor in the module, so the call raises
  \<open>NameError\<close>; no connection is made and none is remembered.
\<close>

theorem client_request_unbound_loop:
  "connection client0 = None \<and>
   MailboxClient_request dial registry actorid_of ''0123456789abcdef'' 0 pickle_frame good_transport True
      client0 ''ping'' (VStr ''a'') (VStr ''arbiter'') VNone VNone = (Inl (NameError ''loop''), client0)"
  by (simp add: MailboxClient_request_def client0_def load_name_def request_locals_def
        mailbox_globals_def)

section \<open>Properties of the transport\<close>

subsection \<open>Splitting and sending\<close>











text \<open>The same write, computed: the pieces, what was sent and what is still queued.\<close>

lemma write_hello_world:
  "write_enqueue 4 transport0 ''hello world''
     = Inr (transport0\<lparr>write_buffer := [''hell'', ''o wo'', ''rld'']\<rparr>) \<and>
   sent (sock (snd (write_chunk env0 transport0 ''hello world''))) = ''hell'' \<and>
   write_buffer (snd (write_chunk env0 transport0 ''hello world'')) = [''o wo'', ''rld''] \<and>
   writer (snd (write_chunk env0 transport0 ''hello world'')) = Some ''_ready_write''"
  by code_simp

subsection \<open>Empty writes\<close>

text \<open>
  C10. Writing the empty byte sequence returns at once without raising, whatever the
  closed-state check would answer, and leaves the transport as it was: its write queue,
  its socket and the writer registered with the event loop.
\<close>

theorem write_empty_is_noop:
  "write_chunk env s [] = (None, s)"
  by (simp add: write_chunk_def)

subsection \<open>Paused writing\<close>

text \<open>
  While writing is paused, a write, and a sequence of writes, leaves the socket as it was
  and the transport paused.
\<close>

lemma ready_write_paused:
  "paused_writing s \<Longrightarrow> ready_write env s = (Some 0, s)"
  by (simp add: ready_write_def)

lemma write_enqueue_frame:
  "write_enqueue m s dat = Inr s1 \<Longrightarrow> sock s1 = sock s \<and> paused_writing s1 = paused_writing s"
  by (auto simp: write_enqueue_def split: if_splits)

lemma write_paused_sends_nothing:
  assumes "paused_writing s"
  shows "sock (snd (write_chunk env s dat)) = sock s \<and> paused_writing (snd (write_chunk env s dat))"
proof (cases "write_enqueue (WRITE_BUFFER_MAX_SIZE env) s dat")
  case (Inl e)
  with assms show ?thesis
    by (simp add: write_chunk_def Let_def split: option.splits)
next
  case (Inr s1)
  from write_enqueue_frame [OF Inr] assms Inr show ?thesis
    by (simp add: write_chunk_def Let_def split: option.splits)
qed

lemma writelines_paused_sends_nothing:
  "paused_writing s \<Longrightarrow>
     sock (snd (writelines env s ds)) = sock s \<and> paused_writing (snd (writelines env s ds))"
proof (induction ds arbitrary: s)
  case Nil
  then show ?case by simp
next
  case (Cons d ds)
  obtain r s1 where w: "write_chunk env s d = (r, s1)"
    by (cases "write_chunk env s d")
  from write_paused_sends_nothing [OF Cons.prems, of env d] w
  have s1: "sock s1 = sock s" "paused_writing s1"
    by simp_all
  show ?case
  proof (cases r)
    case None
    with w Cons.IH [OF s1(2)] s1 show ?thesis by simp
  next
    case (Some e)
    with w s1 show ?thesis by simp
  qed
qed

text \<open>
  \<^verbatim>\<open>resume_writing\<close> with a queue that is not empty, on a transport whose base
  class has no attribute \<^verbatim>\<open>_write_ready\<close>: the class itself defines
  \<^verbatim>\<open>_ready_write\<close> only.
\<close>

lemma resume_writing_raises:
  assumes "''_write_ready'' \<notin> set (base_attrs env)" "paused_writing s" "write_buffer s \<noteq> []"
  shows "resume_writing env s = (Some (AttributeError ''_write_ready''), s)"
  using assms by (simp add: resume_writing_def getattr_def SocketStreamTransport_attrs_def)

text \<open>
  C7. Writing is paused and \<^verbatim>\<open>hello world\<close> is written: the write does not
  raise, the pieces are queued and the socket has received nothing. Then
  \<^verbatim>\<open>resume_writing\<close> raises \<open>AttributeError\<close> for \<^verbatim>\<open>_write_ready\<close>
  and leaves the transport as it was, still paused, so that \<^verbatim>\<open>_ready_write\<close>
  still sends nothing: the bytes do not reach the socket.
\<close>

theorem resume_writing_unbound_handler:
  "fst (write_chunk env0 (pause_writing transport0) ''hello world'') = None \<and>
   write_buffer (snd (write_chunk env0 (pause_writing transport0) ''hello world'')) = [''hell'', ''o wo'', ''rld''] \<and>
   sent (sock (snd (write_chunk env0 (pause_writing transport0) ''hello world''))) = [] \<and>
   resume_writing env0 (snd (write_chunk env0 (pause_writing transport0) ''hello world''))
     = (Some (AttributeError ''_write_ready''), snd (write_chunk env0 (pause_writing transport0) ''hello world'')) \<and>
   paused_writing (snd (write_chunk env0 (pause_writing transport0) ''hello world'')) \<and>
   ready_write env0 (snd (write_chunk env0 (pause_writing transport0) ''hello world''))
     = (Some 0, snd (write_chunk env0 (pause_writing transport0) ''hello world''))"
  by code_simp

subsection \<open>Paused reading\<close>

text \<open>While reading is paused, the chunks received are appended to the read buffer in order.\<close>

lemma recv_loop_paused:
  "paused_reading s \<Longrightarrow> \<forall>c\<in>set chunks. c \<noteq> [] \<Longrightarrow>
     recv_loop env (map Recv chunks) passes s = (None, [], s\<lparr>read_buffer := read_buffer s @ chunks\<rparr>)"
proof (induction chunks arbitrary: passes s)
  case Nil
  then show ?case by simp
next
  case (Cons c chunks)
  from Cons.prems have "recv_loop env (map Recv (c # chunks)) passes s
      = recv_loop env (map Recv chunks) (passes + 1) (s\<lparr>read_buffer := read_buffer s @ [c]\<rparr>)"
    by simp
  also have "\<dots> = (None, [], s\<lparr>read_buffer := read_buffer s @ [c], read_buffer := (read_buffer s @ [c]) @ chunks\<rparr>)"
    using Cons.IH [of "s\<lparr>read_buffer := read_buffer s @ [c]\<rparr>" "passes + 1"] Cons.prems by simp
  finally show ?case by simp
qed

text \<open>
  \<^verbatim>\<open>resume\<close> with buffered chunks raises whatever the base class provides, hands
  nothing to the protocol and has emptied the read buffer.
\<close>

lemma resume_raises:
  assumes "paused_reading s" "read_buffer s \<noteq> []"
  shows "(fst (resume env s) = Some (AttributeError ''_data_received'') \<or>
          fst (resume env s) = Some (NameError ''chunk'')) \<and>
         snd (resume env s) = s\<lparr>paused_reading := False, read_buffer := []\<rparr>"
proof -
  from assms(2) obtain d buffer where b: "read_buffer s = d # buffer"
    by (cases "read_buffer s") auto
  show ?thesis
    using assms(1) b
    by (simp add: resume_def getattr_def load_name_def stream_globals_def)
qed

text \<open>
  C6. Reading is paused and the socket delivers the chunks \<^verbatim>\<open>ab\<close> and
  \<^verbatim>\<open>cd\<close>: they are buffered in order and the protocol receives nothing. Then
  \<^verbatim>\<open>resume\<close> raises, \<open>NameError\<close> for \<^verbatim>\<open>chunk\<close> when the base
  class has a \<^verbatim>\<open>_data_received\<close> and \<open>AttributeError\<close> when it has none; the
  protocol still has received nothing, and the read buffer is empty: the chunks are lost.
\<close>

theorem resume_drops_buffered_chunks:
  "read_buffer (read_ready env1 (pause transport0)) = [''ab'', ''cd''] \<and>
   delivered (read_ready env1 (pause transport0)) = [] \<and>
   fst (resume env1 (read_ready env1 (pause transport0))) = Some (NameError ''chunk'') \<and>
   fst (resume env0 (read_ready env0 (pause transport0))) = Some (AttributeError ''_data_received'') \<and>
   delivered (snd (resume env1 (read_ready env1 (pause transport0)))) = [] \<and>
   read_buffer (snd (resume env1 (read_ready env1 (pause transport0)))) = [] \<and>
   paused_reading (snd (resume env1 (read_ready env1 (pause transport0)))) = False"
  by code_simp

section \<open>Properties of create_connection\<close>







end
